theory Spec2Isabelle
  imports Complex_Main
begin

section \<open>Python values and exceptions\<close>

text \<open>
  The request object of \<^verbatim>\<open>tcex_request.py\<close> stores whatever the caller assigns, so
  its fields hold dynamically typed values. \<open>pyval\<close> covers the classes the setters
  distinguish: \<open>None\<close>, \<open>bool\<close> (a subclass of \<open>int\<close>), \<open>int\<close>, \<open>str\<close>, \<open>bytes\<close>,
  \<open>list\<close>, \<open>tuple\<close> and \<open>dict\<close> (with string keys). Strings are ASCII text.
\<close>

datatype pyval =
    PNone
  | PBool bool
  | PInt int
  | PStr string
  | PBytes string
  | PList "pyval list"
  | PTuple "pyval list"
  | PDict "(string \<times> pyval) list"

text \<open>
  An exception is its class and the text \<open>str(e)\<close> gives. \<open>KeyboardInterrupt\<close>,
  \<open>SystemExit\<close> and \<open>GeneratorExit\<close> derive from \<open>BaseException\<close> only; every other
  class here derives from \<open>Exception\<close>.
\<close>

datatype exn_class =
    AttributeError
  | TypeError
  | RuntimeError
  | OtherException string
  | KeyboardInterrupt
  | SystemExit
  | GeneratorExit

datatype exn = Raise (exn_class: exn_class) (exn_str: string)

fun isinstance_Exception :: "exn_class \<Rightarrow> bool" where
  "isinstance_Exception KeyboardInterrupt = False"
| "isinstance_Exception SystemExit = False"
| "isinstance_Exception GeneratorExit = False"
| "isinstance_Exception _ = True"

text \<open>\<open>isinstance(data, int)\<close>: true of an \<open>int\<close> and of a \<open>bool\<close>.\<close>

fun isinstance_int :: "pyval \<Rightarrow> bool" where
  "isinstance_int (PInt _) = True"
| "isinstance_int (PBool _) = True"
| "isinstance_int _ = False"

text \<open>\<open>isinstance(data, dict)\<close>.\<close>

fun isinstance_dict :: "pyval \<Rightarrow> bool" where
  "isinstance_dict (PDict _) = True"
| "isinstance_dict _ = False"

text \<open>\<open>str(n)\<close> of an integer: its decimal digits, with a minus sign when negative.\<close>

definition digit_char :: "nat \<Rightarrow> char" where
  "digit_char d = char_of (48 + d)"

fun str_nat :: "nat \<Rightarrow> string" where
  "str_nat n = (if n < 10 then [digit_char n] else str_nat (n div 10) @ [digit_char (n mod 10)])"

definition str_int :: "int \<Rightarrow> string" where
  "str_int i = (if i < 0 then CHR ''-'' # str_nat (nat (- i)) else str_nat (nat i))"

text \<open>
  \<open>len(v)\<close>: defined for strings, bytes, lists, tuples and dicts; a \<open>TypeError\<close> for the
  other classes. A dict counts its distinct keys.
\<close>

fun type_name :: "pyval \<Rightarrow> string" where
  "type_name PNone = ''NoneType''"
| "type_name (PBool _) = ''bool''"
| "type_name (PInt _) = ''int''"
| "type_name (PStr _) = ''str''"
| "type_name (PBytes _) = ''bytes''"
| "type_name (PList _) = ''list''"
| "type_name (PTuple _) = ''tuple''"
| "type_name (PDict _) = ''dict''"

fun py_len :: "pyval \<Rightarrow> exn + nat" where
  "py_len (PStr s) = Inr (length s)"
| "py_len (PBytes b) = Inr (length b)"
| "py_len (PList xs) = Inr (length xs)"
| "py_len (PTuple xs) = Inr (length xs)"
| "py_len (PDict kvs) = Inr (length (remdups (map fst kvs)))"
| "py_len v = Inl (Raise TypeError (''object of type '' @ [CHR 39] @ type_name v @ [CHR 39] @ '' has no len()''))"

text \<open>\<open>str.upper()\<close> on ASCII text: the letters a to z become A to Z.\<close>

definition upper_char :: "char \<Rightarrow> char" where
  "upper_char c =
     (let n = (of_char c :: nat) in if 97 \<le> n \<and> n \<le> 122 then char_of (n - 32) else c)"

definition upper :: "string \<Rightarrow> string" where
  "upper s = map upper_char s"

declare str_nat.simps [simp del]

section \<open>The retry policy and the session (lines 13 to 28)\<close>

text \<open>
  The arguments \<open>session_retry\<close> gives to urllib3's \<open>Retry\<close>. The backoff factor is the
  decimal literal of the source, kept as a rational number.
\<close>

record retry =
  r_total :: int
  r_read :: int
  r_connect :: int
  r_backoff_factor :: rat
  r_status_forcelist :: "int list"

text \<open>
  A session: the adapters mounted by URL prefix, each an \<open>HTTPAdapter\<close> known by its
  \<open>max_retries\<close> policy, and the session's default headers.
\<close>

record session =
  adapters :: "string \<rightharpoonup> retry"
  session_headers :: "string \<rightharpoonup> string"

section \<open>The requests library as a parameter\<close>

text \<open>
  \<open>Request\<close>, \<open>PreparedRequest\<close> and \<open>Session\<close> belong to the requests library, which
  is not part of this program. Their operations are the fields of \<open>requests_lib\<close>, and
  every function below that calls one takes the library as its first argument. Each
  operation either raises or returns.
\<close>

record request_args =
  a_method :: string
  a_url :: pyval
  a_data :: pyval
  a_files :: pyval
  a_params :: "string \<rightharpoonup> pyval"

record prepared_request =
  p_method :: string
  p_url :: pyval
  p_headers :: "string \<rightharpoonup> string"
  p_body :: pyval

record send_kwargs =
  k_proxies :: pyval
  k_timeout :: pyval
  k_verify :: pyval
  k_stream :: bool

record response =
  status_code :: int
  content :: string

record requests_lib =
  Session_new :: session
  prepare :: "request_args \<Rightarrow> exn + prepared_request"
  prepare_headers :: "prepared_request \<Rightarrow> (string \<rightharpoonup> string) \<Rightarrow> exn + prepared_request"
  prepare_auth :: "prepared_request \<Rightarrow> pyval \<Rightarrow> exn + prepared_request"
  session_send :: "session \<Rightarrow> prepared_request \<Rightarrow> send_kwargs \<Rightarrow> exn + response"

text \<open>
  \<open>session_retry\<close>: \<open>session or Session()\<close> keeps a session that is given, and the
  policy is mounted on the prefix \<open>https://\<close>.
\<close>

definition session_retry :: "requests_lib \<Rightarrow> int \<Rightarrow> rat \<Rightarrow> int list \<Rightarrow> session option \<Rightarrow> session" where
  "session_retry L retries backoff_factor status_forcelist sess =
     (let session0 = (case sess of None \<Rightarrow> Session_new L | Some s \<Rightarrow> s);
          retries' = \<lparr>r_total = retries, r_read = retries, r_connect = retries,
                      r_backoff_factor = backoff_factor, r_status_forcelist = status_forcelist\<rparr>
      in session0\<lparr>adapters := (adapters session0)(''https://'' \<mapsto> retries')\<rparr>)"

text \<open>The call \<open>session_retry()\<close>, with the defaults of the signature in line 13.\<close>

definition session_retry_default :: "requests_lib \<Rightarrow> session" where
  "session_retry_default L = session_retry L 3 (3 / 10) [500, 502, 504] None"

section \<open>The request object (lines 31 to 56)\<close>

text \<open>
  One field for each attribute \<open>__init__\<close> sets, named as the attribute without its
  leading underscore. \<open>verify\<close> is the attribute \<open>_verify\<close>, which \<open>__init__\<close> does not
  set: \<open>None\<close> here means that the object has no such attribute. The \<open>tcex\<close> object only
  gives the logger; its calls are events of \<open>send\<close>.
\<close>

record request =
  authorization_method :: "(prepared_request \<Rightarrow> exn + (string \<rightharpoonup> string)) option"
  basic_auth :: pyval
  body :: pyval
  content_type :: "string option"
  headers :: "string \<rightharpoonup> string"
  http_method :: string
  json :: pyval
  payload :: "string \<rightharpoonup> pyval"
  proxies :: pyval
  url :: pyval
  files :: pyval
  timeout :: pyval
  verify_ssl :: pyval
  verify :: "pyval option"
  session :: session

definition TcExRequest_init :: "requests_lib \<Rightarrow> session option \<Rightarrow> request" where
  "TcExRequest_init L sess =
     (let session1 = session_retry_default L;
          session2 = (case sess of None \<Rightarrow> session1 | Some s \<Rightarrow> s)
      in \<lparr>authorization_method = None,
          basic_auth = PNone,
          body = PNone,
          content_type = None,
          headers = Map.empty,
          http_method = ''GET'',
          json = PNone,
          payload = Map.empty,
          proxies = PDict [],
          url = PNone,
          files = PNone,
          timeout = PInt 300,
          verify_ssl = PBool False,
          verify = None,
          session = session2\<lparr>session_headers := (session_headers session2)(''User-Agent'' \<mapsto> ''TcEx'')\<rparr>\<rparr>)"

section \<open>Headers, body and payload (lines 58 to 187)\<close>

text \<open>
  A setter that can raise returns \<open>Inl (e, s)\<close>, the exception with the object as the
  raise leaves it, or \<open>Inr s\<close>, the object after a normal return.
\<close>

type_synonym outcome = "(exn \<times> request) + request"

fun state_of :: "outcome \<Rightarrow> request" where
  "state_of (Inl (e, s)) = s"
| "state_of (Inr s) = s"

text \<open>
  \<open>add_header\<close>: every caller in the file passes a string, and \<open>str\<close> of a string is the
  string.
\<close>

definition add_header :: "request \<Rightarrow> string \<Rightarrow> string \<Rightarrow> request" where
  "add_header s key val = s\<lparr>headers := (headers s)(key \<mapsto> val)\<rparr>"

definition reset_headers :: "request \<Rightarrow> request" where
  "reset_headers s = s\<lparr>headers := Map.empty\<rparr>"

text \<open>
  The \<open>body\<close> setter (lines 67 to 72): the body is stored before \<open>len\<close> is taken, so a
  value without a length is stored and the \<open>TypeError\<close> leaves the headers as they were.
\<close>

definition body_setter :: "request \<Rightarrow> pyval \<Rightarrow> outcome" where
  "body_setter s data =
     (if data \<noteq> PNone then
        (let s1 = s\<lparr>body := data\<rparr> in
         case py_len (body s1) of
           Inl e \<Rightarrow> Inl (e, s1)
         | Inr n \<Rightarrow> Inr (add_header s1 ''Content-Length'' (str_int (int n))))
      else Inr s)"

text \<open>
  The \<open>json\<close> setter (lines 79 to 84). \<open>json.dumps\<close> is the standard library's; it is the
  parameter \<open>dumps\<close>, which raises or returns the serialized text.
\<close>

definition json_setter :: "(pyval \<Rightarrow> exn + string) \<Rightarrow> request \<Rightarrow> pyval \<Rightarrow> outcome" where
  "json_setter dumps s data =
     (if data \<noteq> PNone then
        (case dumps data of
           Inl e \<Rightarrow> Inl (e, s)
         | Inr txt \<Rightarrow> Inr (add_header (s\<lparr>body := PStr txt\<rparr>) ''Content-Type'' ''application/json''))
      else Inr s)"

definition body_getter :: "request \<Rightarrow> pyval" where
  "body_getter s = body s"

definition json_getter :: "request \<Rightarrow> pyval" where
  "json_getter s = body s"

definition authorization_method_m :: "request \<Rightarrow> (prepared_request \<Rightarrow> exn + (string \<rightharpoonup> string)) \<Rightarrow> request" where
  "authorization_method_m s method = s\<lparr>authorization_method := Some method\<rparr>"

definition basic_auth_setter :: "request \<Rightarrow> pyval \<Rightarrow> request" where
  "basic_auth_setter s data = s\<lparr>basic_auth := data\<rparr>"

definition content_type_setter :: "request \<Rightarrow> string \<Rightarrow> request" where
  "content_type_setter s data = add_header (s\<lparr>content_type := Some data\<rparr>) ''Content-Type'' data"

definition reset_payload :: "request \<Rightarrow> request" where
  "reset_payload s = s\<lparr>payload := Map.empty\<rparr>"

text \<open>
  \<open>add_payload\<close> (lines 176 to 187): \<open>setdefault(key, [])\<close> stores an empty list under
  a new key and returns the value under the key; \<open>append\<close> then extends a list and is
  an \<open>AttributeError\<close> on the other classes stored here.
\<close>

definition add_payload :: "request \<Rightarrow> string \<Rightarrow> pyval \<Rightarrow> bool \<Rightarrow> outcome" where
  "add_payload s key val appnd =
     (if appnd then
        (case payload s key of
           None \<Rightarrow> Inr (s\<lparr>payload := (payload s)(key \<mapsto> PList [val])\<rparr>)
         | Some (PList xs) \<Rightarrow> Inr (s\<lparr>payload := (payload s)(key \<mapsto> PList (xs @ [val]))\<rparr>)
         | Some v \<Rightarrow>
             Inl (Raise AttributeError
                    ([CHR 39] @ type_name v @ [CHR 39] @ '' object has no attribute ''
                       @ [CHR 39] @ ''append'' @ [CHR 39]), s))
      else Inr (s\<lparr>payload := (payload s)(key \<mapsto> val)\<rparr>))"

section \<open>Method and send properties (lines 189 to 260)\<close>

definition http_method_setter :: "request \<Rightarrow> string \<Rightarrow> outcome" where
  "http_method_setter s data0 =
     (let data = upper data0 in
      if data \<in> set [''DELETE'', ''GET'', ''POST'', ''PUT''] then
        (let s1 = s\<lparr>http_method := data\<rparr> in
         if content_type s1 = None \<and> data \<in> set [''POST'', ''PUT'']
         then Inr (add_header s1 ''Content-Type'' ''application/json'')
         else Inr s1)
      else Inl (Raise AttributeError
                  (''Request Object Error: '' @ data @ '' is not a valid HTTP method.''), s))"

definition proxies_setter :: "request \<Rightarrow> pyval \<Rightarrow> request" where
  "proxies_setter s data = s\<lparr>proxies := data\<rparr>"

definition timeout_setter :: "request \<Rightarrow> pyval \<Rightarrow> request" where
  "timeout_setter s data = (if isinstance_int data then s\<lparr>timeout := data\<rparr> else s)"

text \<open>
  The \<open>verify_ssl\<close> property (lines 237 to 249) reads and writes the attribute
  \<open>_verify\<close>; reading an attribute the object does not have is an \<open>AttributeError\<close>.
\<close>

definition verify_ssl_getter :: "request \<Rightarrow> exn + pyval" where
  "verify_ssl_getter s =
     (case verify s of
        None \<Rightarrow> Inl (Raise AttributeError
                       ([CHR 39] @ ''TcExRequest'' @ [CHR 39] @ '' object has no attribute ''
                          @ [CHR 39] @ ''_verify'' @ [CHR 39]))
      | Some v \<Rightarrow> Inr v)"

definition verify_ssl_setter :: "request \<Rightarrow> pyval \<Rightarrow> request" where
  "verify_ssl_setter s v = s\<lparr>verify := Some v\<rparr>"

definition files_setter :: "request \<Rightarrow> pyval \<Rightarrow> request" where
  "files_setter s data = (if isinstance_dict data then s\<lparr>files := data\<rparr> else s)"

definition url_setter :: "request \<Rightarrow> pyval \<Rightarrow> request" where
  "url_setter s data = s\<lparr>url := data\<rparr>"

section \<open>Send (lines 265 to 309)\<close>

text \<open>
  \<open>send\<close> calls the library, the authorization method and the logger in a fixed order.
  The model records each call, with its arguments, in the order it is made; a call that
  raises is recorded too. The result holds the calls, the object as \<open>send\<close> leaves it
  (line 289 updates its headers) and what \<open>send\<close> raises or returns.
\<close>

datatype call =
    Call_prepare request_args
  | Call_authorization_method prepared_request
  | Call_prepare_headers prepared_request "string \<rightharpoonup> string"
  | Call_prepare_auth prepared_request pyval
  | Call_session_send session prepared_request send_kwargs
  | Call_log_info string

record send_result =
  sr_calls :: "call list"
  sr_state :: request
  sr_result :: "exn + response"

fun is_authorization_call :: "call \<Rightarrow> bool" where
  "is_authorization_call (Call_authorization_method _) = True"
| "is_authorization_call _ = False"

text \<open>The keyword arguments of \<open>self.session.send\<close> in lines 301 and 302.\<close>

definition send_kwargs_of :: "request \<Rightarrow> bool \<Rightarrow> send_kwargs" where
  "send_kwargs_of s stream =
     \<lparr>k_proxies = proxies s, k_timeout = timeout s, k_verify = verify_ssl s, k_stream = stream\<rparr>"

text \<open>
  Lines 299 to 309: the \<open>try\<close> around \<open>self.session.send\<close>. \<open>except Exception\<close> catches
  the classes that derive from \<open>Exception\<close>; any other exception leaves \<open>send\<close> as it is.
\<close>

definition send_dispatch :: "requests_lib \<Rightarrow> request \<Rightarrow> bool \<Rightarrow> call list \<Rightarrow> prepared_request \<Rightarrow> send_result" where
  "send_dispatch L s stream tr p =
     (let kw = send_kwargs_of s stream;
          tr1 = tr @ [Call_session_send (session s) p kw]
      in case session_send L (session s) p kw of
           Inl e \<Rightarrow>
             (if isinstance_Exception (exn_class e)
              then \<lparr>sr_calls = tr1, sr_state = s,
                    sr_result = Inl (Raise RuntimeError
                      (''Failed making HTTP request ('' @ exn_str e @ '').''))\<rparr>
              else \<lparr>sr_calls = tr1, sr_state = s, sr_result = Inl e\<rparr>)
         | Inr r \<Rightarrow>
             \<lparr>sr_calls = tr1 @ [Call_log_info (''Status Code: '' @ str_int (status_code r))],
              sr_state = s, sr_result = Inr r\<rparr>)"

text \<open>Lines 293 and 294: basic auth, when set, is applied to the prepared request.\<close>

definition send_basic_auth :: "requests_lib \<Rightarrow> request \<Rightarrow> bool \<Rightarrow> call list \<Rightarrow> prepared_request \<Rightarrow> send_result" where
  "send_basic_auth L s stream tr p =
     (if basic_auth s \<noteq> PNone then
        (let tr1 = tr @ [Call_prepare_auth p (basic_auth s)]
         in case prepare_auth L p (basic_auth s) of
              Inl e \<Rightarrow> \<lparr>sr_calls = tr1, sr_state = s, sr_result = Inl e\<rparr>
            | Inr p' \<Rightarrow> send_dispatch L s stream tr1 p')
      else send_dispatch L s stream tr p)"

text \<open>Line 290: the header map of the object is applied to the prepared request.\<close>

definition send_headers :: "requests_lib \<Rightarrow> request \<Rightarrow> bool \<Rightarrow> call list \<Rightarrow> prepared_request \<Rightarrow> send_result" where
  "send_headers L s stream tr p =
     (let tr1 = tr @ [Call_prepare_headers p (headers s)]
      in case prepare_headers L p (headers s) of
           Inl e \<Rightarrow> \<lparr>sr_calls = tr1, sr_state = s, sr_result = Inl e\<rparr>
         | Inr p' \<Rightarrow> send_basic_auth L s stream tr1 p')"

text \<open>
  Lines 288 and 289: the authorization method, when registered, is called with the
  prepared request and \<open>dict.update\<close> merges what it returns into the header map.
\<close>

definition send_authorization :: "requests_lib \<Rightarrow> request \<Rightarrow> bool \<Rightarrow> call list \<Rightarrow> prepared_request \<Rightarrow> send_result" where
  "send_authorization L s stream tr p =
     (case authorization_method s of
        None \<Rightarrow> send_headers L s stream tr p
      | Some method \<Rightarrow>
          (let tr1 = tr @ [Call_authorization_method p]
           in case method p of
                Inl e \<Rightarrow> \<lparr>sr_calls = tr1, sr_state = s, sr_result = Inl e\<rparr>
              | Inr hs \<Rightarrow> send_headers L (s\<lparr>headers := headers s ++ hs\<rparr>) stream tr1 p))"

text \<open>Lines 281 to 285: the request is built from the object and prepared.\<close>

definition request_args_of :: "request \<Rightarrow> request_args" where
  "request_args_of s =
     \<lparr>a_method = http_method s, a_url = url s, a_data = body s, a_files = files s,
      a_params = payload s\<rparr>"

definition send :: "requests_lib \<Rightarrow> request \<Rightarrow> bool \<Rightarrow> send_result" where
  "send L s stream =
     (let tr1 = [Call_prepare (request_args_of s)]
      in case prepare L (request_args_of s) of
           Inl e \<Rightarrow> \<lparr>sr_calls = tr1, sr_state = s, sr_result = Inl e\<rparr>
         | Inr request_prepped \<Rightarrow> send_authorization L s stream tr1 request_prepped)"

text \<open>The request that \<open>send\<close> hands to the session, and the keyword arguments with it.\<close>

fun dispatched :: "call list \<Rightarrow> (prepared_request \<times> send_kwargs) list" where
  "dispatched [] = []"
| "dispatched (Call_session_send _ p kw # cs) = (p, kw) # dispatched cs"
| "dispatched (_ # cs) = dispatched cs"

section \<open>Execution under the retry policy\<close>

text \<open>
  Modelled from the spec: the execution of one request under a \<open>Retry\<close> policy, which
  is urllib3's and not under \<open>src/\<close>. Section 4.1 of the specification: a connection
  failure, a read timeout and a response whose status is in the retryable set trigger a
  retry; the total budget is shared by the three categories, the connect and read
  categories have budgets of their own; any other response is returned at once; when a
  budget is used up the last failure or response is surfaced. The server is the
  function from the number of an attempt to what that attempt meets. The result counts
  the retries of each category and gives what is surfaced.
\<close>

datatype attempt = Connect_failure | Read_timeout | Status int

record tally =
  n_connect :: nat
  n_read :: nat
  n_status :: nat



text \<open>The retries of an execution, over the three categories.\<close>

definition retries_made :: "tally \<Rightarrow> nat" where
  "retries_made ty = n_connect ty + n_read ty + n_status ty"

section \<open>A library to run the object against\<close>

text \<open>
  Modelled from the spec: a stand-in for the requests library (not under \<open>src/\<close>), used
  where a theorem is evaluated on a concrete run. Steps 2, 4 and 5 of section 4.2:
  preparing keeps method, URL and body; applying the header map overwrites the headers
  of the same name; basic auth sets the \<open>Authorization\<close> header to \<open>Basic\<close> and the
  Base64 text of \<open>user:password\<close> (RFC 4648). The server is a parameter.
\<close>

definition b64_alphabet :: string where
  "b64_alphabet = ''ABCDEFGHIJKLMNOPQRSTUVWXYZabcdefghijklmnopqrstuvwxyz0123456789+/''"

definition b64_char :: "nat \<Rightarrow> char" where
  "b64_char n = b64_alphabet ! (n mod 64)"

fun b64_bytes :: "nat list \<Rightarrow> string" where
  "b64_bytes [] = []"
| "b64_bytes [a] = [b64_char (a div 4), b64_char ((a mod 4) * 16), CHR ''='', CHR ''='']"
| "b64_bytes [a, b] =
     [b64_char (a div 4), b64_char ((a mod 4) * 16 + b div 16), b64_char ((b mod 16) * 4), CHR ''='']"
| "b64_bytes (a # b # c # rest) =
     [b64_char (a div 4), b64_char ((a mod 4) * 16 + b div 16),
      b64_char ((b mod 16) * 4 + c div 64), b64_char (c mod 64)] @ b64_bytes rest"

definition b64encode :: "string \<Rightarrow> string" where
  "b64encode s = b64_bytes (map of_char s)"

definition model_session :: session where
  "model_session = \<lparr>adapters = Map.empty, session_headers = Map.empty\<rparr>"

definition model_prepare :: "request_args \<Rightarrow> exn + prepared_request" where
  "model_prepare a =
     (case a_url a of
        PStr u \<Rightarrow> Inr \<lparr>p_method = a_method a, p_url = PStr u, p_headers = Map.empty, p_body = a_data a\<rparr>
      | _ \<Rightarrow> Inl (Raise (OtherException ''MissingSchema'') ''Invalid URL''))"

definition model_prepare_headers :: "prepared_request \<Rightarrow> (string \<rightharpoonup> string) \<Rightarrow> exn + prepared_request" where
  "model_prepare_headers p hs = Inr (p\<lparr>p_headers := p_headers p ++ hs\<rparr>)"

fun model_prepare_auth :: "prepared_request \<Rightarrow> pyval \<Rightarrow> exn + prepared_request" where
  "model_prepare_auth p (PTuple [PStr user, PStr password]) =
     Inr (p\<lparr>p_headers := (p_headers p)(''Authorization'' \<mapsto>
            ''Basic '' @ b64encode (user @ '':'' @ password))\<rparr>)"
| "model_prepare_auth p _ = Inr p"

definition requests_model :: "(prepared_request \<Rightarrow> exn + response) \<Rightarrow> requests_lib" where
  "requests_model server =
     \<lparr>Session_new = model_session,
      prepare = model_prepare,
      prepare_headers = model_prepare_headers,
      prepare_auth = model_prepare_auth,
      session_send = (\<lambda>sess p kw. server p)\<rparr>"

text \<open>What \<open>send\<close> hands to the session as \<open>verify\<close>, one value for each dispatch.\<close>

definition verify_handed :: "send_result \<Rightarrow> pyval list" where
  "verify_handed r = map (\<lambda>d. k_verify (snd d)) (dispatched (sr_calls r))"

section \<open>Concrete runs\<close>

text \<open>
  Servers, a callback and objects on which the theorems below are evaluated: a server
  that answers 200, one whose connection is refused, one interrupted from the keyboard
  while the request is in flight, one during which the interpreter exits; a freshly
  constructed object; a callback that returns a bearer token; an object with that
  callback and basic-auth credentials; an object with no callback, an \<open>Authorization\<close>
  header in its header map and basic-auth credentials.
\<close>

definition server_200 :: "prepared_request \<Rightarrow> exn + response" where
  "server_200 p = Inr \<lparr>status_code = 200, content = ''ok''\<rparr>"

definition server_refused :: "prepared_request \<Rightarrow> exn + response" where
  "server_refused p = Inl (Raise (OtherException ''ConnectionError'') ''Connection refused'')"

definition server_interrupted :: "prepared_request \<Rightarrow> exn + response" where
  "server_interrupted p = Inl (Raise KeyboardInterrupt '''')"

definition server_exit :: "prepared_request \<Rightarrow> exn + response" where
  "server_exit p = Inl (Raise SystemExit ''1'')"

definition fresh :: request where
  "fresh = TcExRequest_init (requests_model server_200) None"

definition example_url :: pyval where
  "example_url = PStr ''https://example.com''"

definition example_prepared :: prepared_request where
  "example_prepared =
     \<lparr>p_method = ''GET'', p_url = example_url, p_headers = Map.empty, p_body = PNone\<rparr>"

definition bearer_callback :: "prepared_request \<Rightarrow> exn + (string \<rightharpoonup> string)" where
  "bearer_callback p = Inr [''Authorization'' \<mapsto> ''Bearer t'']"

definition auth_request :: request where
  "auth_request =
     basic_auth_setter (authorization_method_m (url_setter fresh example_url) bearer_callback)
       (PTuple [PStr ''u'', PStr ''p''])"

definition map_auth_request :: request where
  "map_auth_request =
     basic_auth_setter (add_header (url_setter fresh example_url) ''Authorization'' ''Bearer m'')
       (PTuple [PStr ''u'', PStr ''p''])"

text \<open>
  Modelled from the spec: \<open>json.dumps\<close> (the standard library's, not under \<open>src/\<close>) on
  the example of section 8, where the object with the one entry \<open>a\<close>: 1 is serialized
  as that text; the stand-in refuses every other value.
\<close>

definition dumps_example :: "pyval \<Rightarrow> exn + string" where
  "dumps_example v =
     (if v = PDict [(''a'', PInt 1)] then Inr ''{\"a\": 1}''
      else Inl (Raise TypeError ''not serializable''))"




section \<open>Evaluation lemmas\<close>

lemma upper_post: "upper ''post'' = ''POST''"
  by code_simp

lemma upper_put: "upper ''Put'' = ''PUT''"
  by code_simp

lemma upper_patch: "upper ''patch'' = ''PATCH''"
  by code_simp

lemma str_int_0: "str_int 0 = ''0''"
  by code_simp

lemma str_int_3: "str_int 3 = ''3''"
  by code_simp

lemma b64encode_u_p: "b64encode ''u:p'' = ''dTpw''"
  by code_simp

lemma fresh_fields:
  "body fresh = PNone" "headers fresh = Map.empty" "content_type fresh = None"
  "http_method fresh = ''GET''" "payload fresh = Map.empty" "timeout fresh = PInt 300"
  "files fresh = PNone" "verify_ssl fresh = PBool False" "verify fresh = None"
  "basic_auth fresh = PNone" "authorization_method fresh = None" "url fresh = PNone"
  "proxies fresh = PDict []"
  by (simp_all add: fresh_def TcExRequest_init_def Let_def)

section \<open>The setters\<close>

text \<open>
  Claim C10. Reading the \<open>verify_ssl\<close> property of a freshly constructed object, before
  its setter has been used, raises an \<open>AttributeError\<close>: the getter reads \<open>_verify\<close>,
  and the constructor sets \<open>_verify_ssl\<close> only. This holds whatever library and
  session the object is constructed with.
\<close>

theorem verify_ssl_getter_fresh_raises:
  "verify_ssl_getter (TcExRequest_init L sess) =
     Inl (Raise AttributeError
            ([CHR 39] @ ''TcExRequest'' @ [CHR 39] @ '' object has no attribute ''
               @ [CHR 39] @ ''_verify'' @ [CHR 39]))"
  by (simp add: verify_ssl_getter_def TcExRequest_init_def Let_def)

text \<open>
  Claim C8. Assigning to \<open>timeout\<close> a value that is not an instance of \<open>int\<close>, such as
  the string \<open>abc\<close>, and assigning to \<open>files\<close> a value that is not a dict, change
  nothing: the object is the same afterwards, so a fresh object keeps the timeout 300
  and no files. The setters have no raising branch.
\<close>

theorem silent_noop_setters:
  "\<not> isinstance_int v \<Longrightarrow> \<not> isinstance_dict d \<Longrightarrow>
     timeout_setter s v = s \<and> files_setter s d = s \<and>
     timeout (timeout_setter (TcExRequest_init L sess) v) = PInt 300 \<and>
     files (files_setter (TcExRequest_init L sess) d) = PNone"
  by (simp add: timeout_setter_def files_setter_def TcExRequest_init_def Let_def)

theorem silent_noop_setters_witness:
  "\<not> isinstance_int (PStr ''abc'') \<and> \<not> isinstance_dict (PList [PStr ''f'']) \<and>
   timeout_setter fresh (PStr ''abc'') = fresh \<and>
   files_setter fresh (PList [PStr ''f'']) = fresh \<and>
   timeout (timeout_setter fresh (PStr ''abc'')) = PInt 300 \<and>
   files (files_setter fresh (PList [PStr ''f''])) = PNone"
  using silent_noop_setters [of "PStr ''abc''" "PList [PStr ''f'']" fresh "requests_model server_200" None]
  by (simp add: fresh_def timeout_setter_def files_setter_def)

text \<open>
  Claim C7. Two calls of \<open>add_payload\<close> without \<open>append\<close> on one key both return, and
  leave under the key the second value, whatever the payload held before; two calls
  with \<open>append\<close> on a key the payload does not have both return, and leave under the
  key the list of the two values in the order of the calls. The other keys are as
  they were.
\<close>

theorem add_payload_overwrite_and_append:
  "(\<exists>s1 s2. add_payload s key x False = Inr s1 \<and> add_payload s1 key y False = Inr s2 \<and>
       payload s2 = (payload s)(key \<mapsto> y)) \<and>
   (payload s key = None \<longrightarrow>
      (\<exists>s1 s2. add_payload s key x True = Inr s1 \<and> add_payload s1 key y True = Inr s2 \<and>
         payload s2 = (payload s)(key \<mapsto> PList [x, y])))"
  by (simp add: add_payload_def)

theorem add_payload_overwrite_and_append_witness:
  "payload fresh ''tag'' = None \<and>
   (\<exists>s1 s2. add_payload fresh ''tag'' (PStr ''x'') False = Inr s1 \<and>
       add_payload s1 ''tag'' (PStr ''y'') False = Inr s2 \<and>
       payload s2 = [''tag'' \<mapsto> PStr ''y'']) \<and>
   (\<exists>s1 s2. add_payload fresh ''tag'' (PStr ''x'') True = Inr s1 \<and>
       add_payload s1 ''tag'' (PStr ''y'') True = Inr s2 \<and>
       payload s2 = [''tag'' \<mapsto> PList [PStr ''x'', PStr ''y'']])"
  using add_payload_overwrite_and_append [of fresh "''tag''" "PStr ''x''" "PStr ''y''"]
  by (simp add: fresh_fields)

text \<open>
  Claim C4. The \<open>http_method\<close> setter returns exactly when the upper-cased argument is
  one of GET, POST, PUT and DELETE, and then stores the upper-cased argument. For POST
  and PUT, when no content type has been set, it also sets the header \<open>Content-Type\<close> to
  \<open>application/json\<close>; otherwise it leaves the headers alone. For any other argument it
  raises an \<open>AttributeError\<close> whose message carries the upper-cased argument, and the
  object, its stored method included, is unchanged. The setter takes no library
  argument: nothing is sent.
\<close>

theorem http_method_setter_accepts_or_raises:
  "((\<exists>s'. http_method_setter s data = Inr s') \<longleftrightarrow>
      upper data \<in> {''GET'', ''POST'', ''PUT'', ''DELETE''}) \<and>
   (upper data \<in> {''GET'', ''POST'', ''PUT'', ''DELETE''} \<longrightarrow>
      http_method (state_of (http_method_setter s data)) = upper data) \<and>
   (upper data \<in> {''POST'', ''PUT''} \<and> content_type s = None \<longrightarrow>
      headers (state_of (http_method_setter s data)) =
        (headers s)(''Content-Type'' \<mapsto> ''application/json'')) \<and>
   (upper data \<in> {''GET'', ''DELETE''} \<or> content_type s \<noteq> None \<longrightarrow>
      headers (state_of (http_method_setter s data)) = headers s) \<and>
   (upper data \<notin> {''GET'', ''POST'', ''PUT'', ''DELETE''} \<longrightarrow>
      http_method_setter s data =
        Inl (Raise AttributeError
               (''Request Object Error: '' @ upper data @ '' is not a valid HTTP method.''), s))"
  by (auto simp add: http_method_setter_def Let_def add_header_def)

theorem http_method_setter_accepts_or_raises_witness:
  "upper ''post'' \<in> {''GET'', ''POST'', ''PUT'', ''DELETE''} \<and>
   upper ''post'' \<in> {''POST'', ''PUT''} \<and> content_type fresh = None \<and>
   (\<exists>s'. http_method_setter fresh ''post'' = Inr s') \<and>
   http_method (state_of (http_method_setter fresh ''post'')) = ''POST'' \<and>
   headers (state_of (http_method_setter fresh ''post'')) = [''Content-Type'' \<mapsto> ''application/json''] \<and>
   content_type (content_type_setter fresh ''text/xml'') \<noteq> None \<and>
   http_method (state_of (http_method_setter (content_type_setter fresh ''text/xml'') ''Put'')) = ''PUT'' \<and>
   headers (state_of (http_method_setter (content_type_setter fresh ''text/xml'') ''Put'')) =
     [''Content-Type'' \<mapsto> ''text/xml''] \<and>
   upper ''patch'' \<notin> {''GET'', ''POST'', ''PUT'', ''DELETE''} \<and>
   http_method_setter fresh ''patch'' =
     Inl (Raise AttributeError ''Request Object Error: PATCH is not a valid HTTP method.'', fresh) \<and>
   http_method fresh = ''GET''"
proof -
  have ct: "content_type (content_type_setter fresh ''text/xml'') \<noteq> None"
    and hs: "headers (content_type_setter fresh ''text/xml'') = [''Content-Type'' \<mapsto> ''text/xml'']"
    by (simp_all add: content_type_setter_def add_header_def fresh_fields)
  show ?thesis
    using http_method_setter_accepts_or_raises [of fresh "''post''"]
      http_method_setter_accepts_or_raises [of "content_type_setter fresh ''text/xml''" "''Put''"]
      http_method_setter_accepts_or_raises [of fresh "''patch''"] ct hs
    by (simp add: upper_post upper_put upper_patch fresh_fields)
qed

text \<open>
  Claim C5, as stated, at the empty string. The claim makes the assignment of an empty
  value a no-op. The setter tests \<open>data is not None\<close>, so on a fresh object the empty
  string is stored as the body and the header \<open>Content-Length\<close> becomes \<open>0\<close>.
\<close>

theorem body_setter_empty_string_counterexample:
  "body_setter fresh (PStr '''') \<noteq> Inr fresh \<and>
   body fresh = PNone \<and>
   body (state_of (body_setter fresh (PStr ''''))) = PStr '''' \<and>
   headers fresh ''Content-Length'' = None \<and>
   headers (state_of (body_setter fresh (PStr ''''))) ''Content-Length'' = Some ''0''"
proof -
  let ?after = "fresh\<lparr>body := PStr '''', headers := (headers fresh)(''Content-Length'' \<mapsto> ''0'')\<rparr>"
  have r: "body_setter fresh (PStr '''') = Inr ?after"
    by (simp add: body_setter_def Let_def add_header_def str_int_0)
  have "body ?after \<noteq> body fresh"
    by (simp add: fresh_fields)
  then have ne: "?after \<noteq> fresh"
    by (metis (no_types))
  show ?thesis
    using ne by (simp add: r fresh_fields)
qed

text \<open>
  Claim C5, amended. Assigning \<open>None\<close> to \<open>body\<close> is a no-op: the object is unchanged.
  Assigning any other value that has a length (the empty string included) stores it
  as the body and sets the header \<open>Content-Length\<close> to the decimal text of that length,
  changing nothing else. A value with no length, such as an integer, is stored as the
  body, and the \<open>TypeError\<close> of \<open>len\<close> is raised with the headers as they were.
\<close>

theorem body_setter_none_or_sized:
  "body_setter s PNone = Inr s \<and>
   (py_len data = Inr n \<longrightarrow>
      body_setter s data =
        Inr (s\<lparr>body := data, headers := (headers s)(''Content-Length'' \<mapsto> str_int (int n))\<rparr>)) \<and>
   (data \<noteq> PNone \<and> py_len data = Inl e \<longrightarrow>
      body_setter s data = Inl (e, s\<lparr>body := data\<rparr>))"
  by (auto simp add: body_setter_def Let_def add_header_def)

theorem body_setter_none_or_sized_witness:
  "py_len (PStr ''abc'') = Inr 3 \<and>
   body_setter fresh PNone = Inr fresh \<and>
   body_setter fresh (PStr ''abc'') =
     Inr (fresh\<lparr>body := PStr ''abc'', headers := [''Content-Length'' \<mapsto> ''3'']\<rparr>) \<and>
   PInt 5 \<noteq> PNone \<and>
   py_len (PInt 5) = Inl (Raise TypeError ''object of type 'int' has no len()'') \<and>
   body_setter fresh (PInt 5) =
     Inl (Raise TypeError ''object of type 'int' has no len()'', fresh\<lparr>body := PInt 5\<rparr>)"
  using body_setter_none_or_sized [of fresh "PStr ''abc''" 3]
    body_setter_none_or_sized [of fresh "PInt 5" 0 "Raise TypeError ''object of type 'int' has no len()''"]
  by (simp add: str_int_3 fresh_fields)

text \<open>
  Claim C6. Assigning to \<open>json\<close> a value that \<open>json.dumps\<close> serializes stores the
  serialized text in the body, the slot the \<open>body\<close> and \<open>json\<close> properties both read,
  and sets the header \<open>Content-Type\<close> to \<open>application/json\<close>. Assigning a value to
  \<open>body\<close> afterwards replaces the stored text, and the \<open>Content-Type\<close> header is still
  \<open>application/json\<close>. The values assigned are other than \<open>None\<close>, which both setters
  ignore.
\<close>

theorem json_setter_then_body_setter:
  "v \<noteq> PNone \<Longrightarrow> dumps v = Inr txt \<Longrightarrow> d \<noteq> PNone \<Longrightarrow>
   (\<exists>s1. json_setter dumps s v = Inr s1 \<and>
      body s1 = PStr txt \<and> body_getter s1 = PStr txt \<and> json_getter s1 = PStr txt \<and>
      headers s1 = (headers s)(''Content-Type'' \<mapsto> ''application/json'') \<and>
      body (state_of (body_setter s1 d)) = d \<and>
      headers (state_of (body_setter s1 d)) ''Content-Type'' = Some ''application/json'')"
  by (auto simp add: json_setter_def body_setter_def Let_def add_header_def body_getter_def
      json_getter_def split: sum.splits)

theorem json_setter_then_body_setter_witness:
  "PDict [(''a'', PInt 1)] \<noteq> PNone \<and>
   dumps_example (PDict [(''a'', PInt 1)]) = Inr ''{\"a\": 1}'' \<and>
   PStr ''raw'' \<noteq> PNone \<and>
   (\<exists>s1. json_setter dumps_example fresh (PDict [(''a'', PInt 1)]) = Inr s1 \<and>
      body s1 = PStr ''{\"a\": 1}'' \<and> body_getter s1 = PStr ''{\"a\": 1}'' \<and>
      json_getter s1 = PStr ''{\"a\": 1}'' \<and>
      headers s1 = [''Content-Type'' \<mapsto> ''application/json''] \<and>
      body (state_of (body_setter s1 (PStr ''raw''))) = PStr ''raw'' \<and>
      headers (state_of (body_setter s1 (PStr ''raw''))) ''Content-Type'' = Some ''application/json'')"
proof -
  have d: "dumps_example (PDict [(''a'', PInt 1)]) = Inr ''{\"a\": 1}''"
    by (simp add: dumps_example_def)
  show ?thesis
    using d json_setter_then_body_setter
      [of "PDict [(''a'', PInt 1)]" dumps_example "''{\"a\": 1}''" "PStr ''raw''" fresh]
    by (simp add: fresh_fields)
qed

section \<open>Send\<close>

subsection \<open>Each stage of send: its calls, its state, what it dispatches\<close>

lemma send_kwargs_of_headers [simp]:
  "send_kwargs_of (s\<lparr>headers := h\<rparr>) stream = send_kwargs_of s stream"
  by (simp add: send_kwargs_of_def)

lemma request_args_of_headers [simp]:
  "request_args_of (s\<lparr>headers := h\<rparr>) = request_args_of s"
  by (simp add: request_args_of_def)

lemma dispatched_append [simp]: "dispatched (xs @ ys) = dispatched xs @ dispatched ys"
  by (induction xs rule: dispatched.induct) simp_all

lemma auth_calls_send_dispatch:
  "filter is_authorization_call (sr_calls (send_dispatch L s stream tr p)) =
     filter is_authorization_call tr"
  by (simp add: send_dispatch_def Let_def split: sum.splits)

lemma auth_calls_send_basic_auth:
  "filter is_authorization_call (sr_calls (send_basic_auth L s stream tr p)) =
     filter is_authorization_call tr"
  by (simp add: send_basic_auth_def Let_def auth_calls_send_dispatch split: sum.splits)

lemma auth_calls_send_headers:
  "filter is_authorization_call (sr_calls (send_headers L s stream tr p)) =
     filter is_authorization_call tr"
  by (simp add: send_headers_def Let_def auth_calls_send_basic_auth split: sum.splits)

lemma state_send_dispatch: "sr_state (send_dispatch L s stream tr p) = s"
  by (simp add: send_dispatch_def Let_def split: sum.splits)

lemma state_send_basic_auth: "sr_state (send_basic_auth L s stream tr p) = s"
  by (simp add: send_basic_auth_def Let_def state_send_dispatch split: sum.splits)

lemma state_send_headers: "sr_state (send_headers L s stream tr p) = s"
  by (simp add: send_headers_def Let_def state_send_basic_auth split: sum.splits)

lemma calls_send_dispatch:
  "\<exists>rest. sr_calls (send_dispatch L s stream tr p) =
     tr @ Call_session_send (session s) p (send_kwargs_of s stream) # rest"
  by (simp add: send_dispatch_def Let_def split: sum.splits)

lemma calls_send_basic_auth:
  "\<exists>rest. sr_calls (send_basic_auth L s stream tr p) = tr @ rest"
  using calls_send_dispatch [of L s stream _ _]
  by (simp add: send_basic_auth_def Let_def split: sum.splits) (metis append.assoc)

lemma calls_send_headers:
  "\<exists>rest. sr_calls (send_headers L s stream tr p) = tr @ Call_prepare_headers p (headers s) # rest"
proof (cases "prepare_headers L p (headers s)")
  case (Inl e)
  then show ?thesis by (simp add: send_headers_def Let_def)
next
  case (Inr p')
  obtain rest where "sr_calls (send_basic_auth L s stream (tr @ [Call_prepare_headers p (headers s)]) p')
      = (tr @ [Call_prepare_headers p (headers s)]) @ rest"
    using calls_send_basic_auth by blast
  with Inr show ?thesis by (simp add: send_headers_def Let_def)
qed

lemma result_send_dispatch:
  "sr_result (send_dispatch L s stream tr q) =
     (case session_send L (session s) q (send_kwargs_of s stream) of
        Inl e \<Rightarrow> if isinstance_Exception (exn_class e)
                 then Inl (Raise RuntimeError (''Failed making HTTP request ('' @ exn_str e @ '').''))
                 else Inl e
      | Inr r \<Rightarrow> Inr r)"
  by (simp add: send_dispatch_def Let_def split: sum.splits)

lemma dispatched_send_dispatch:
  "dispatched (sr_calls (send_dispatch L s stream tr q)) =
     dispatched tr @ [(q, send_kwargs_of s stream)]"
  by (simp add: send_dispatch_def Let_def split: sum.splits)

lemma reach_send_basic_auth:
  "dispatched (sr_calls (send_basic_auth L s stream tr p)) = dispatched tr \<or>
   (\<exists>q tr'. send_basic_auth L s stream tr p = send_dispatch L s stream tr' q \<and>
      dispatched tr' = dispatched tr)"
proof (cases "basic_auth s = PNone")
  case True
  then show ?thesis by (auto simp add: send_basic_auth_def)
next
  case False
  show ?thesis
  proof (cases "prepare_auth L p (basic_auth s)")
    case (Inl e)
    with False show ?thesis by (simp add: send_basic_auth_def Let_def)
  next
    case (Inr p')
    with False have "send_basic_auth L s stream tr p =
        send_dispatch L s stream (tr @ [Call_prepare_auth p (basic_auth s)]) p'"
      by (simp add: send_basic_auth_def Let_def)
    moreover have "dispatched (tr @ [Call_prepare_auth p (basic_auth s)]) = dispatched tr"
      by simp
    ultimately show ?thesis by blast
  qed
qed

lemma reach_send_headers:
  "dispatched (sr_calls (send_headers L s stream tr p)) = dispatched tr \<or>
   (\<exists>q tr'. send_headers L s stream tr p = send_dispatch L s stream tr' q \<and>
      dispatched tr' = dispatched tr)"
proof (cases "prepare_headers L p (headers s)")
  case (Inl e)
  then show ?thesis by (simp add: send_headers_def Let_def)
next
  case (Inr p')
  have eq: "send_headers L s stream tr p =
      send_basic_auth L s stream (tr @ [Call_prepare_headers p (headers s)]) p'"
    using Inr by (simp add: send_headers_def Let_def)
  have d: "dispatched (tr @ [Call_prepare_headers p (headers s)]) = dispatched tr"
    by simp
  show ?thesis
    using reach_send_basic_auth [of L s stream "tr @ [Call_prepare_headers p (headers s)]" p']
    unfolding eq d by simp
qed

lemma reach_send_authorization:
  "dispatched (sr_calls (send_authorization L s stream tr p)) = dispatched tr \<or>
   (\<exists>q tr' h. send_authorization L s stream tr p = send_dispatch L (s\<lparr>headers := h\<rparr>) stream tr' q \<and>
      dispatched tr' = dispatched tr)"
proof (cases "authorization_method s")
  case None
  then have eq: "send_authorization L s stream tr p = send_headers L s stream tr p"
    by (simp add: send_authorization_def)
  have "s\<lparr>headers := headers s\<rparr> = s" by simp
  then show ?thesis
    using reach_send_headers [of L s stream tr p] unfolding eq by metis
next
  case (Some callback)
  show ?thesis
  proof (cases "callback p")
    case (Inl e)
    with Some show ?thesis by (simp add: send_authorization_def Let_def)
  next
    case (Inr hs)
    have eq: "send_authorization L s stream tr p =
        send_headers L (s\<lparr>headers := headers s ++ hs\<rparr>) stream (tr @ [Call_authorization_method p]) p"
      using Some Inr by (simp add: send_authorization_def Let_def)
    have d: "dispatched (tr @ [Call_authorization_method p]) = dispatched tr"
      by simp
    show ?thesis
      using reach_send_headers [of L "s\<lparr>headers := headers s ++ hs\<rparr>" stream
          "tr @ [Call_authorization_method p]" p]
      unfolding eq d by blast
  qed
qed

lemma reach_send:
  "dispatched (sr_calls (send L s stream)) = [] \<or>
   (\<exists>q tr' h. send L s stream = send_dispatch L (s\<lparr>headers := h\<rparr>) stream tr' q \<and>
      dispatched tr' = [])"
proof (cases "prepare L (request_args_of s)")
  case (Inl e)
  then show ?thesis by (simp add: send_def Let_def)
next
  case (Inr p0)
  then have eq: "send L s stream = send_authorization L s stream [Call_prepare (request_args_of s)] p0"
    by (simp add: send_def Let_def)
  show ?thesis
    using reach_send_authorization [of L s stream "[Call_prepare (request_args_of s)]" p0]
    unfolding eq by simp
qed

lemma send_dispatched:
  assumes "dispatched (sr_calls (send L s stream)) = [(p, kw)]"
  shows "kw = send_kwargs_of s stream \<and>
     sr_result (send L s stream) =
       (case session_send L (session s) p kw of
          Inl e \<Rightarrow> if isinstance_Exception (exn_class e)
                   then Inl (Raise RuntimeError (''Failed making HTTP request ('' @ exn_str e @ '').''))
                   else Inl e
        | Inr r \<Rightarrow> Inr r)"
proof -
  from reach_send [of L s stream] assms
  obtain q tr' h where eq: "send L s stream = send_dispatch L (s\<lparr>headers := h\<rparr>) stream tr' q"
    and d: "dispatched tr' = []"
    by auto
  from assms have "[(q, send_kwargs_of s stream)] = [(p, kw)]"
    unfolding eq dispatched_send_dispatch d by simp
  then have "q = p" and "kw = send_kwargs_of s stream" by simp_all
  then show ?thesis
    unfolding eq result_send_dispatch by simp
qed

subsection \<open>The authorization pipeline\<close>

lemma auth_request_fields:
  "headers auth_request = Map.empty"
  "authorization_method auth_request = Some bearer_callback"
  "basic_auth auth_request = PTuple [PStr ''u'', PStr ''p'']"
  "prepare (requests_model server_200) (request_args_of auth_request) = Inr example_prepared"
  by (simp_all add: auth_request_def basic_auth_setter_def authorization_method_m_def url_setter_def
      fresh_def TcExRequest_init_def Let_def requests_model_def model_prepare_def
      request_args_of_def example_prepared_def example_url_def)

lemma map_auth_request_fields:
  "headers map_auth_request = [''Authorization'' \<mapsto> ''Bearer m'']"
  "authorization_method map_auth_request = None"
  "basic_auth map_auth_request = PTuple [PStr ''u'', PStr ''p'']"
  "prepare (requests_model server_200) (request_args_of map_auth_request) = Inr example_prepared"
  by (simp_all add: map_auth_request_def basic_auth_setter_def add_header_def url_setter_def
      fresh_def TcExRequest_init_def Let_def requests_model_def model_prepare_def
      request_args_of_def example_prepared_def example_url_def)

lemma model_steps:
  "prepare_headers (requests_model server_200) example_prepared [''Authorization'' \<mapsto> v] =
     Inr (example_prepared\<lparr>p_headers := [''Authorization'' \<mapsto> v]\<rparr>)"
  "prepare_auth (requests_model server_200)
       (example_prepared\<lparr>p_headers := [''Authorization'' \<mapsto> v]\<rparr>) (PTuple [PStr ''u'', PStr ''p'']) =
     Inr (example_prepared\<lparr>p_headers := [''Authorization'' \<mapsto> ''Basic dTpw'']\<rparr>)"
  by (simp_all add: requests_model_def model_prepare_headers_def example_prepared_def b64encode_u_p)

text \<open>
  Claim C3. In a \<open>send\<close> whose request is prepared: an authorization method that is
  registered is called exactly once, on the prepared request, whatever happens
  afterwards, and none is called when none is registered. The headers the method
  returns are merged into the header map of the object, and the merged map (the map
  as it is, without a method) is what is then applied to the prepared request. Basic
  auth, when credentials are set, is applied next, to the request that carries the
  header map, with or without a method, and the request that results is the one handed
  to the session: whatever basic auth writes, an \<open>Authorization\<close> header included,
  replaces what the callback or the map gave. Without credentials the request that
  carries the header map is handed to the session.
\<close>

theorem send_authorization_order:
  assumes prep: "prepare L (request_args_of s) = Inr p"
  shows
   "(authorization_method s = Some callback \<longrightarrow>
       filter is_authorization_call (sr_calls (send L s stream)) = [Call_authorization_method p]) \<and>
    (authorization_method s = None \<longrightarrow>
       filter is_authorization_call (sr_calls (send L s stream)) = []) \<and>
    (authorization_method s = Some callback \<and> callback p = Inr hs \<longrightarrow>
       take 3 (sr_calls (send L s stream)) =
         [Call_prepare (request_args_of s), Call_authorization_method p,
          Call_prepare_headers p (headers s ++ hs)] \<and>
       headers (sr_state (send L s stream)) = headers s ++ hs) \<and>
    (authorization_method s = None \<longrightarrow>
       take 2 (sr_calls (send L s stream)) =
         [Call_prepare (request_args_of s), Call_prepare_headers p (headers s)] \<and>
       sr_state (send L s stream) = s) \<and>
    (authorization_method s = Some callback \<and> callback p = Inr hs \<and>
     prepare_headers L p (headers s ++ hs) = Inr ph \<and>
     basic_auth s \<noteq> PNone \<and> prepare_auth L ph (basic_auth s) = Inr pa \<longrightarrow>
       take 5 (sr_calls (send L s stream)) =
         [Call_prepare (request_args_of s), Call_authorization_method p,
          Call_prepare_headers p (headers s ++ hs),
          Call_prepare_auth ph (basic_auth s),
          Call_session_send (session s) pa (send_kwargs_of s stream)] \<and>
       dispatched (sr_calls (send L s stream)) = [(pa, send_kwargs_of s stream)]) \<and>
    (authorization_method s = None \<and> prepare_headers L p (headers s) = Inr ph \<and>
     basic_auth s \<noteq> PNone \<and> prepare_auth L ph (basic_auth s) = Inr pa \<longrightarrow>
       take 4 (sr_calls (send L s stream)) =
         [Call_prepare (request_args_of s), Call_prepare_headers p (headers s),
          Call_prepare_auth ph (basic_auth s),
          Call_session_send (session s) pa (send_kwargs_of s stream)] \<and>
       dispatched (sr_calls (send L s stream)) = [(pa, send_kwargs_of s stream)]) \<and>
    (authorization_method s = Some callback \<and> callback p = Inr hs \<and>
     prepare_headers L p (headers s ++ hs) = Inr ph \<and> basic_auth s = PNone \<longrightarrow>
       take 4 (sr_calls (send L s stream)) =
         [Call_prepare (request_args_of s), Call_authorization_method p,
          Call_prepare_headers p (headers s ++ hs),
          Call_session_send (session s) ph (send_kwargs_of s stream)] \<and>
       dispatched (sr_calls (send L s stream)) = [(ph, send_kwargs_of s stream)]) \<and>
    (authorization_method s = None \<and> prepare_headers L p (headers s) = Inr ph \<and>
     basic_auth s = PNone \<longrightarrow>
       take 3 (sr_calls (send L s stream)) =
         [Call_prepare (request_args_of s), Call_prepare_headers p (headers s),
          Call_session_send (session s) ph (send_kwargs_of s stream)] \<and>
       dispatched (sr_calls (send L s stream)) = [(ph, send_kwargs_of s stream)])"
proof -
  let ?tr1 = "[Call_prepare (request_args_of s)]"
  let ?s' = "s\<lparr>headers := headers s ++ hs\<rparr>"
  have eq0: "send L s stream = send_authorization L s stream ?tr1 p"
    using prep by (simp add: send_def Let_def)
  have disp: "take (Suc (length tr)) (sr_calls (send_dispatch L sa stream tr q)) =
        tr @ [Call_session_send (session sa) q (send_kwargs_of sa stream)] \<and>
      dispatched (sr_calls (send_dispatch L sa stream tr q)) =
        dispatched tr @ [(q, send_kwargs_of sa stream)]" for sa tr q
  proof -
    obtain rest where "sr_calls (send_dispatch L sa stream tr q) =
        tr @ Call_session_send (session sa) q (send_kwargs_of sa stream) # rest"
      using calls_send_dispatch by blast
    then have "take (Suc (length tr)) (sr_calls (send_dispatch L sa stream tr q)) =
        tr @ [Call_session_send (session sa) q (send_kwargs_of sa stream)]"
      by simp
    then show ?thesis using dispatched_send_dispatch [of L sa stream tr q] by blast
  qed
  have hdrs: "take (Suc (length tr)) (sr_calls (send_headers L sa stream tr p)) =
        tr @ [Call_prepare_headers p (headers sa)]" for sa tr
  proof -
    obtain rest where "sr_calls (send_headers L sa stream tr p) =
        tr @ Call_prepare_headers p (headers sa) # rest"
      using calls_send_headers by blast
    then show ?thesis by simp
  qed
  have a1: "filter is_authorization_call (sr_calls (send L s stream)) = [Call_authorization_method p]"
    if reg: "authorization_method s = Some callback"
  proof (cases "callback p")
    case (Inl e)
    then show ?thesis using reg by (simp add: eq0 send_authorization_def Let_def)
  next
    case (Inr hs')
    then show ?thesis
      using reg by (simp add: eq0 send_authorization_def Let_def auth_calls_send_headers)
  qed
  have a2: "filter is_authorization_call (sr_calls (send L s stream)) = []"
    if "authorization_method s = None"
    using that by (simp add: eq0 send_authorization_def auth_calls_send_headers)
  have b1: "take 3 (sr_calls (send L s stream)) =
         [Call_prepare (request_args_of s), Call_authorization_method p,
          Call_prepare_headers p (headers s ++ hs)] \<and>
       headers (sr_state (send L s stream)) = headers s ++ hs"
    if h: "authorization_method s = Some callback \<and> callback p = Inr hs"
  proof -
    have eq1: "send L s stream =
        send_headers L ?s' stream [Call_prepare (request_args_of s), Call_authorization_method p] p"
      using h by (simp add: eq0 send_authorization_def Let_def)
    show ?thesis
      using hdrs [where sa = "?s'" and tr = "[Call_prepare (request_args_of s), Call_authorization_method p]"]
      by (simp add: eq1 state_send_headers numeral_3_eq_3)
  qed
  have b2: "take 2 (sr_calls (send L s stream)) =
         [Call_prepare (request_args_of s), Call_prepare_headers p (headers s)] \<and>
       sr_state (send L s stream) = s"
    if h: "authorization_method s = None"
  proof -
    have eq1: "send L s stream = send_headers L s stream ?tr1 p"
      using h by (simp add: eq0 send_authorization_def)
    show ?thesis
      using hdrs [where sa = s and tr = "?tr1"] by (simp add: eq1 state_send_headers numeral_2_eq_2)
  qed
  have c1: "take 5 (sr_calls (send L s stream)) =
         [Call_prepare (request_args_of s), Call_authorization_method p,
          Call_prepare_headers p (headers s ++ hs),
          Call_prepare_auth ph (basic_auth s),
          Call_session_send (session s) pa (send_kwargs_of s stream)] \<and>
       dispatched (sr_calls (send L s stream)) = [(pa, send_kwargs_of s stream)]"
    if h: "authorization_method s = Some callback \<and> callback p = Inr hs \<and>
     prepare_headers L p (headers s ++ hs) = Inr ph \<and>
     basic_auth s \<noteq> PNone \<and> prepare_auth L ph (basic_auth s) = Inr pa"
  proof -
    let ?tr = "[Call_prepare (request_args_of s), Call_authorization_method p,
          Call_prepare_headers p (headers s ++ hs), Call_prepare_auth ph (basic_auth s)]"
    have eq: "send L s stream = send_dispatch L ?s' stream ?tr pa"
      using h by (simp add: eq0 send_authorization_def send_headers_def send_basic_auth_def Let_def)
    have five: "Suc (length ?tr) = 5" by simp
    show ?thesis
      using disp [where sa = "?s'" and tr = "?tr" and q = pa] unfolding five by (simp add: eq)
  qed
  have c2: "take 4 (sr_calls (send L s stream)) =
         [Call_prepare (request_args_of s), Call_prepare_headers p (headers s),
          Call_prepare_auth ph (basic_auth s),
          Call_session_send (session s) pa (send_kwargs_of s stream)] \<and>
       dispatched (sr_calls (send L s stream)) = [(pa, send_kwargs_of s stream)]"
    if h: "authorization_method s = None \<and> prepare_headers L p (headers s) = Inr ph \<and>
     basic_auth s \<noteq> PNone \<and> prepare_auth L ph (basic_auth s) = Inr pa"
  proof -
    let ?tr = "[Call_prepare (request_args_of s), Call_prepare_headers p (headers s),
          Call_prepare_auth ph (basic_auth s)]"
    have eq: "send L s stream = send_dispatch L s stream ?tr pa"
      using h by (simp add: eq0 send_authorization_def send_headers_def send_basic_auth_def Let_def)
    have four: "Suc (length ?tr) = 4" by simp
    show ?thesis
      using disp [where sa = "s" and tr = "?tr" and q = pa] unfolding four by (simp add: eq)
  qed
  have d1: "take 4 (sr_calls (send L s stream)) =
         [Call_prepare (request_args_of s), Call_authorization_method p,
          Call_prepare_headers p (headers s ++ hs),
          Call_session_send (session s) ph (send_kwargs_of s stream)] \<and>
       dispatched (sr_calls (send L s stream)) = [(ph, send_kwargs_of s stream)]"
    if h: "authorization_method s = Some callback \<and> callback p = Inr hs \<and>
     prepare_headers L p (headers s ++ hs) = Inr ph \<and> basic_auth s = PNone"
  proof -
    let ?tr = "[Call_prepare (request_args_of s), Call_authorization_method p,
          Call_prepare_headers p (headers s ++ hs)]"
    have eq: "send L s stream = send_dispatch L ?s' stream ?tr ph"
      using h by (simp add: eq0 send_authorization_def send_headers_def send_basic_auth_def Let_def)
    have four: "Suc (length ?tr) = 4" by simp
    show ?thesis
      using disp [where sa = "?s'" and tr = "?tr" and q = ph] unfolding four by (simp add: eq)
  qed
  have d2: "take 3 (sr_calls (send L s stream)) =
         [Call_prepare (request_args_of s), Call_prepare_headers p (headers s),
          Call_session_send (session s) ph (send_kwargs_of s stream)] \<and>
       dispatched (sr_calls (send L s stream)) = [(ph, send_kwargs_of s stream)]"
    if h: "authorization_method s = None \<and> prepare_headers L p (headers s) = Inr ph \<and>
     basic_auth s = PNone"
  proof -
    let ?tr = "[Call_prepare (request_args_of s), Call_prepare_headers p (headers s)]"
    have eq: "send L s stream = send_dispatch L s stream ?tr ph"
      using h by (simp add: eq0 send_authorization_def send_headers_def send_basic_auth_def Let_def)
    have three: "Suc (length ?tr) = 3" by simp
    show ?thesis
      using disp [where sa = "s" and tr = "?tr" and q = ph] unfolding three by (simp add: eq)
  qed
  show ?thesis
    using a1 a2 b1 b2 c1 c2 d1 d2 by blast
qed


theorem send_authorization_order_witness:
  "prepare (requests_model server_200) (request_args_of auth_request) = Inr example_prepared \<and>
   authorization_method auth_request = Some bearer_callback \<and>
   bearer_callback example_prepared = Inr [''Authorization'' \<mapsto> ''Bearer t''] \<and>
   prepare_headers (requests_model server_200) example_prepared
       (headers auth_request ++ [''Authorization'' \<mapsto> ''Bearer t'']) =
     Inr (example_prepared\<lparr>p_headers := [''Authorization'' \<mapsto> ''Bearer t'']\<rparr>) \<and>
   basic_auth auth_request \<noteq> PNone \<and>
   prepare_auth (requests_model server_200)
       (example_prepared\<lparr>p_headers := [''Authorization'' \<mapsto> ''Bearer t'']\<rparr>) (basic_auth auth_request) =
     Inr (example_prepared\<lparr>p_headers := [''Authorization'' \<mapsto> ''Basic dTpw'']\<rparr>) \<and>
   filter is_authorization_call (sr_calls (send (requests_model server_200) auth_request False)) =
     [Call_authorization_method example_prepared] \<and>
   headers (sr_state (send (requests_model server_200) auth_request False)) =
     headers auth_request ++ [''Authorization'' \<mapsto> ''Bearer t''] \<and>
   p_headers (example_prepared\<lparr>p_headers := [''Authorization'' \<mapsto> ''Basic dTpw'']\<rparr>)
       ''Authorization'' = Some ''Basic dTpw'' \<and>
   take 5 (sr_calls (send (requests_model server_200) auth_request False)) =
     [Call_prepare (request_args_of auth_request), Call_authorization_method example_prepared,
      Call_prepare_headers example_prepared (headers auth_request ++ [''Authorization'' \<mapsto> ''Bearer t'']),
      Call_prepare_auth (example_prepared\<lparr>p_headers := [''Authorization'' \<mapsto> ''Bearer t'']\<rparr>)
        (basic_auth auth_request),
      Call_session_send (session auth_request)
        (example_prepared\<lparr>p_headers := [''Authorization'' \<mapsto> ''Basic dTpw'']\<rparr>)
        (send_kwargs_of auth_request False)] \<and>
   dispatched (sr_calls (send (requests_model server_200) auth_request False)) =
     [(example_prepared\<lparr>p_headers := [''Authorization'' \<mapsto> ''Basic dTpw'']\<rparr>,
       send_kwargs_of auth_request False)] \<and>
   prepare (requests_model server_200) (request_args_of map_auth_request) = Inr example_prepared \<and>
   authorization_method map_auth_request = None \<and>
   headers map_auth_request = [''Authorization'' \<mapsto> ''Bearer m''] \<and>
   prepare_headers (requests_model server_200) example_prepared (headers map_auth_request) =
     Inr (example_prepared\<lparr>p_headers := [''Authorization'' \<mapsto> ''Bearer m'']\<rparr>) \<and>
   basic_auth map_auth_request \<noteq> PNone \<and>
   prepare_auth (requests_model server_200)
       (example_prepared\<lparr>p_headers := [''Authorization'' \<mapsto> ''Bearer m'']\<rparr>)
       (basic_auth map_auth_request) =
     Inr (example_prepared\<lparr>p_headers := [''Authorization'' \<mapsto> ''Basic dTpw'']\<rparr>) \<and>
   filter is_authorization_call (sr_calls (send (requests_model server_200) map_auth_request False)) = [] \<and>
   take 4 (sr_calls (send (requests_model server_200) map_auth_request False)) =
     [Call_prepare (request_args_of map_auth_request),
      Call_prepare_headers example_prepared (headers map_auth_request),
      Call_prepare_auth (example_prepared\<lparr>p_headers := [''Authorization'' \<mapsto> ''Bearer m'']\<rparr>)
        (basic_auth map_auth_request),
      Call_session_send (session map_auth_request)
        (example_prepared\<lparr>p_headers := [''Authorization'' \<mapsto> ''Basic dTpw'']\<rparr>)
        (send_kwargs_of map_auth_request False)] \<and>
   dispatched (sr_calls (send (requests_model server_200) map_auth_request False)) =
     [(example_prepared\<lparr>p_headers := [''Authorization'' \<mapsto> ''Basic dTpw'']\<rparr>,
       send_kwargs_of map_auth_request False)]"
proof -
  have cb: "bearer_callback example_prepared = Inr [''Authorization'' \<mapsto> ''Bearer t'']"
    by (simp add: bearer_callback_def)
  have with_callback:
    "filter is_authorization_call (sr_calls (send (requests_model server_200) auth_request False)) =
       [Call_authorization_method example_prepared] \<and>
     headers (sr_state (send (requests_model server_200) auth_request False)) =
       [''Authorization'' \<mapsto> ''Bearer t''] \<and>
     take 5 (sr_calls (send (requests_model server_200) auth_request False)) =
       [Call_prepare (request_args_of auth_request), Call_authorization_method example_prepared,
        Call_prepare_headers example_prepared [''Authorization'' \<mapsto> ''Bearer t''],
        Call_prepare_auth (example_prepared\<lparr>p_headers := [''Authorization'' \<mapsto> ''Bearer t'']\<rparr>)
          (PTuple [PStr ''u'', PStr ''p'']),
        Call_session_send (session auth_request)
          (example_prepared\<lparr>p_headers := [''Authorization'' \<mapsto> ''Basic dTpw'']\<rparr>)
          (send_kwargs_of auth_request False)] \<and>
     dispatched (sr_calls (send (requests_model server_200) auth_request False)) =
       [(example_prepared\<lparr>p_headers := [''Authorization'' \<mapsto> ''Basic dTpw'']\<rparr>,
         send_kwargs_of auth_request False)]"
    using send_authorization_order [OF auth_request_fields(4), where stream = False
        and callback = bearer_callback
        and hs = "[''Authorization'' \<mapsto> ''Bearer t'']"
        and ph = "example_prepared\<lparr>p_headers := [''Authorization'' \<mapsto> ''Bearer t'']\<rparr>"
        and pa = "example_prepared\<lparr>p_headers := [''Authorization'' \<mapsto> ''Basic dTpw'']\<rparr>"]
    by (simp add: auth_request_fields cb model_steps)
  have without_callback:
    "filter is_authorization_call (sr_calls (send (requests_model server_200) map_auth_request False)) = [] \<and>
     take 4 (sr_calls (send (requests_model server_200) map_auth_request False)) =
       [Call_prepare (request_args_of map_auth_request),
        Call_prepare_headers example_prepared [''Authorization'' \<mapsto> ''Bearer m''],
        Call_prepare_auth (example_prepared\<lparr>p_headers := [''Authorization'' \<mapsto> ''Bearer m'']\<rparr>)
          (PTuple [PStr ''u'', PStr ''p'']),
        Call_session_send (session map_auth_request)
          (example_prepared\<lparr>p_headers := [''Authorization'' \<mapsto> ''Basic dTpw'']\<rparr>)
          (send_kwargs_of map_auth_request False)] \<and>
     dispatched (sr_calls (send (requests_model server_200) map_auth_request False)) =
       [(example_prepared\<lparr>p_headers := [''Authorization'' \<mapsto> ''Basic dTpw'']\<rparr>,
         send_kwargs_of map_auth_request False)]"
    using send_authorization_order [OF map_auth_request_fields(4), where stream = False
        and ph = "example_prepared\<lparr>p_headers := [''Authorization'' \<mapsto> ''Bearer m'']\<rparr>"
        and pa = "example_prepared\<lparr>p_headers := [''Authorization'' \<mapsto> ''Basic dTpw'']\<rparr>"]
    by (simp add: map_auth_request_fields model_steps)
  show ?thesis
    using with_callback without_callback
    by (simp add: auth_request_fields map_auth_request_fields cb model_steps)
qed

subsection \<open>TLS verification\<close>

text \<open>
  Claim C1. The claim has \<open>send\<close> hand to the session the value the \<open>verify_ssl\<close>
  setter stored. The setter writes \<open>_verify\<close> and \<open>send\<close> passes \<open>_verify_ssl\<close>, which
  no setter writes: after any assignment \<open>send\<close> passes the value the object had before.
  On a fresh object whose \<open>verify_ssl\<close> is set to \<open>True\<close>, the property reads \<open>True\<close>
  and the session is handed \<open>False\<close>.
\<close>

theorem send_verify_not_from_setter:
  "k_verify (send_kwargs_of (verify_ssl_setter s v) stream) = verify_ssl s \<and>
   verify_ssl_getter (verify_ssl_setter fresh (PBool True)) = Inr (PBool True) \<and>
   verify_handed (send (requests_model server_200)
       (url_setter (verify_ssl_setter fresh (PBool True)) example_url) False) = [PBool False]"
  by (simp add: send_kwargs_of_def verify_ssl_setter_def verify_ssl_getter_def verify_handed_def
      url_setter_def fresh_def TcExRequest_init_def Let_def send_def send_authorization_def
      send_headers_def send_basic_auth_def send_dispatch_def requests_model_def model_prepare_def
      model_prepare_headers_def request_args_of_def example_url_def server_200_def)

subsection \<open>Failures of the session\<close>

text \<open>
  Claim C9, as stated, at a keyboard interrupt. The claim has every exception of the
  session wrapped. \<open>except Exception\<close> does not catch a \<open>KeyboardInterrupt\<close>: when the
  session raises it while the request is dispatched, \<open>send\<close> raises it unwrapped.
\<close>

theorem send_interrupt_counterexample:
  "dispatched (sr_calls (send (requests_model server_interrupted) (url_setter fresh example_url) False)) =
     [(example_prepared, send_kwargs_of fresh False)] \<and>
   session_send (requests_model server_interrupted) (session (url_setter fresh example_url))
       example_prepared (send_kwargs_of fresh False) = Inl (Raise KeyboardInterrupt '''') \<and>
   \<not> isinstance_Exception (exn_class (Raise KeyboardInterrupt '''')) \<and>
   sr_result (send (requests_model server_interrupted) (url_setter fresh example_url) False) =
     Inl (Raise KeyboardInterrupt '''')"
  by (simp add: send_kwargs_of_def url_setter_def fresh_def TcExRequest_init_def Let_def send_def
      send_authorization_def send_headers_def send_basic_auth_def send_dispatch_def
      requests_model_def model_prepare_def model_prepare_headers_def request_args_of_def
      example_url_def server_interrupted_def example_prepared_def)

lemma isinstance_Exception_iff:
  "isinstance_Exception c \<longleftrightarrow> c \<notin> {KeyboardInterrupt, SystemExit, GeneratorExit}"
  by (cases c) simp_all

text \<open>
  Claim C9, amended. If the session, while dispatching the prepared request, raises
  an exception whose class derives from \<open>Exception\<close>, that is any class but
  \<open>KeyboardInterrupt\<close>, \<open>SystemExit\<close> and \<open>GeneratorExit\<close>, then \<open>send\<close> raises a
  \<open>RuntimeError\<close> whose message is \<open>Failed making HTTP request (\<close>, the text of the
  exception, \<open>).\<close>, and the exception of the session does not reach the caller. An
  exception of one of those three classes leaves \<open>send\<close> as the session raised it.
\<close>

theorem send_wraps_Exception:
  assumes "dispatched (sr_calls (send L s stream)) = [(p, kw)]"
      and "session_send L (session s) p kw = Inl e"
  shows "(isinstance_Exception (exn_class e) \<longleftrightarrow>
            exn_class e \<notin> {KeyboardInterrupt, SystemExit, GeneratorExit}) \<and>
         (isinstance_Exception (exn_class e) \<longrightarrow>
            sr_result (send L s stream) =
              Inl (Raise RuntimeError (''Failed making HTTP request ('' @ exn_str e @ '').''))) \<and>
         (exn_class e \<in> {KeyboardInterrupt, SystemExit, GeneratorExit} \<longrightarrow>
            sr_result (send L s stream) = Inl e)"
  using send_dispatched [OF assms(1)] assms(2) isinstance_Exception_iff [of "exn_class e"]
  by simp

theorem send_wraps_Exception_witness:
  "dispatched (sr_calls (send (requests_model server_refused) (url_setter fresh example_url) False)) =
     [(example_prepared, send_kwargs_of fresh False)] \<and>
   session_send (requests_model server_refused) (session (url_setter fresh example_url)) example_prepared
       (send_kwargs_of fresh False) =
     Inl (Raise (OtherException ''ConnectionError'') ''Connection refused'') \<and>
   isinstance_Exception (exn_class (Raise (OtherException ''ConnectionError'') ''Connection refused'')) \<and>
   sr_result (send (requests_model server_refused) (url_setter fresh example_url) False) =
     Inl (Raise RuntimeError ''Failed making HTTP request (Connection refused).'') \<and>
   dispatched (sr_calls (send (requests_model server_exit) (url_setter fresh example_url) False)) =
     [(example_prepared, send_kwargs_of fresh False)] \<and>
   session_send (requests_model server_exit) (session (url_setter fresh example_url)) example_prepared
       (send_kwargs_of fresh False) = Inl (Raise SystemExit ''1'') \<and>
   exn_class (Raise SystemExit ''1'') \<in> {KeyboardInterrupt, SystemExit, GeneratorExit} \<and>
   sr_result (send (requests_model server_exit) (url_setter fresh example_url) False) =
     Inl (Raise SystemExit ''1'')"
proof -
  have d: "dispatched (sr_calls (send (requests_model server_refused) (url_setter fresh example_url) False)) =
     [(example_prepared, send_kwargs_of fresh False)]"
    by (simp add: send_kwargs_of_def url_setter_def fresh_def TcExRequest_init_def Let_def send_def
      send_authorization_def send_headers_def send_basic_auth_def send_dispatch_def
      requests_model_def model_prepare_def model_prepare_headers_def request_args_of_def
      example_url_def server_refused_def example_prepared_def)
  have r: "session_send (requests_model server_refused) (session (url_setter fresh example_url))
       example_prepared (send_kwargs_of fresh False) =
     Inl (Raise (OtherException ''ConnectionError'') ''Connection refused'')"
    by (simp add: requests_model_def server_refused_def)
  have d': "dispatched (sr_calls (send (requests_model server_exit) (url_setter fresh example_url) False)) =
     [(example_prepared, send_kwargs_of fresh False)]"
    by (simp add: send_kwargs_of_def url_setter_def fresh_def TcExRequest_init_def Let_def send_def
      send_authorization_def send_headers_def send_basic_auth_def send_dispatch_def
      requests_model_def model_prepare_def model_prepare_headers_def request_args_of_def
      example_url_def server_exit_def example_prepared_def)
  have r': "session_send (requests_model server_exit) (session (url_setter fresh example_url))
       example_prepared (send_kwargs_of fresh False) = Inl (Raise SystemExit ''1'')"
    by (simp add: requests_model_def server_exit_def)
  show ?thesis
    using d r d' r' send_wraps_Exception [OF d r] send_wraps_Exception [OF d' r'] by simp
qed

section \<open>The retry policy\<close>





lemma retries_made_upd [simp]:
  "retries_made (acc\<lparr>n_connect := Suc (n_connect acc)\<rparr>) = Suc (retries_made acc)"
  "retries_made (acc\<lparr>n_read := Suc (n_read acc)\<rparr>) = Suc (retries_made acc)"
  "retries_made (acc\<lparr>n_status := Suc (n_status acc)\<rparr>) = Suc (retries_made acc)"
  by (simp_all add: retries_made_def)








end
